theory Spec2Isabelle
  imports Complex_Main
begin

section \<open>JavaScript values used by the two components\<close>

subsection \<open>Numbers\<close>

text \<open>
  A JavaScript number is an IEEE double. Finite values are modelled as reals (rounding is
  not modelled); the three special values a division can produce are kept, because
  \<^verbatim>\<open>Math.min\<close> and \<^verbatim>\<open>Math.max\<close> treat them specially.
\<close>

datatype jsnum = Num real | PosInf | NegInf | NaN

text \<open>\<^verbatim>\<open>a / b\<close> for finite operands: a zero divisor gives an infinity or NaN, never an error.\<close>

fun js_div :: "real \<Rightarrow> real \<Rightarrow> jsnum" where
  "js_div a b =
     (if b = 0 then (if 0 < a then PosInf else if a < 0 then NegInf else NaN)
      else Num (a / b))"

declare js_div.simps [simp del]

text \<open>\<^verbatim>\<open>v * c\<close> for a finite constant \<open>c\<close>.\<close>

fun js_mul :: "jsnum \<Rightarrow> real \<Rightarrow> jsnum" where
  "js_mul (Num a) c = Num (a * c)"
| "js_mul PosInf c = (if 0 < c then PosInf else if c < 0 then NegInf else NaN)"
| "js_mul NegInf c = (if 0 < c then NegInf else if c < 0 then PosInf else NaN)"
| "js_mul NaN c = NaN"

text \<open>\<^verbatim>\<open>Math.min\<close> and \<^verbatim>\<open>Math.max\<close> of two arguments: NaN if either argument is NaN.\<close>

fun Math_min :: "jsnum \<Rightarrow> jsnum \<Rightarrow> jsnum" where
  "Math_min NaN b = NaN"
| "Math_min a NaN = NaN"
| "Math_min NegInf b = NegInf"
| "Math_min a NegInf = NegInf"
| "Math_min PosInf b = b"
| "Math_min a PosInf = a"
| "Math_min (Num a) (Num b) = Num (min a b)"

fun Math_max :: "jsnum \<Rightarrow> jsnum \<Rightarrow> jsnum" where
  "Math_max NaN b = NaN"
| "Math_max a NaN = NaN"
| "Math_max PosInf b = PosInf"
| "Math_max a PosInf = PosInf"
| "Math_max NegInf b = b"
| "Math_max a NegInf = a"
| "Math_max (Num a) (Num b) = Num (max a b)"

text \<open>A percentage coordinate lies on the canvas when it is a finite number in \<open>[0,100]\<close>.\<close>

fun within_0_100 :: "jsnum \<Rightarrow> bool" where
  "within_0_100 (Num r) = (0 \<le> r \<and> r \<le> 100)"
| "within_0_100 PosInf = False"
| "within_0_100 NegInf = False"
| "within_0_100 NaN = False"

subsection \<open>Strings\<close>

text \<open>
  Strings are \<^typ>\<open>string\<close>, one \<^typ>\<open>char\<close> per code unit (code units below 256).
  In that range \<^verbatim>\<open>String.prototype.trim\<close> strips TAB, LF, VT, FF, CR, SPACE and NBSP.
\<close>

definition isWhiteSpace :: "char \<Rightarrow> bool" where
  "isWhiteSpace c = (of_char c \<in> {9, 10, 11, 12, 13, 32, 160 :: nat})"

definition trim :: "string \<Rightarrow> string" where
  "trim s = rev (dropWhile isWhiteSpace (rev (dropWhile isWhiteSpace s)))"

text \<open>\<^verbatim>\<open>s.includes('@')\<close>\<close>

definition includes_at :: "string \<Rightarrow> bool" where
  "includes_at s = (CHR ''@'' \<in> set s)"

text \<open>\<^verbatim>\<open>n.toString()\<close> of a non-negative integer: its decimal digits.\<close>

definition digit :: "nat \<Rightarrow> char" where
  "digit d = ''0123456789'' ! d"

fun toString :: "nat \<Rightarrow> string" where
  "toString n = (if n < 10 then [digit n] else toString (n div 10) @ [digit (n mod 10)])"

declare toString.simps [simp del]

subsection \<open>The outcome of an awaited save\<close>

text \<open>
  The injected \<^verbatim>\<open>onSave\<close> returns a promise. It either resolves, or rejects with a thrown
  value. A thrown value is an \<^verbatim>\<open>Error\<close> instance with its \<^verbatim>\<open>message\<close>, or any other value,
  given with its \<^verbatim>\<open>message\<close> property if it has one. The handlers test
  \<^verbatim>\<open>err instanceof Error\<close> and read \<^verbatim>\<open>err.message\<close> only in that case.
\<close>

datatype thrown = Error_instance string | Other_value "string option"

datatype save_outcome = Resolved | Rejected thrown

section \<open>PathEditor\<close>

subsection \<open>Data\<close>

text \<open>
  Modelled from the spec: the declarations of \<^verbatim>\<open>Position\<close>, \<^verbatim>\<open>Milestone\<close> and
  \<^verbatim>\<open>ThematicPath\<close> (\<^verbatim>\<open>types/thematicPath\<close>) are not among the sources. The fields
  are the ones \<^verbatim>\<open>PathEditor.tsx\<close> reads and writes; the three status values are the ones
  the spec lists and the render code tests.
\<close>

record Position =
  x_p :: jsnum
  y_p :: jsnum

datatype Status = locked | unlocked | completed

record Milestone =
  id_m :: string
  position :: Position
  activityId :: string
  status :: Status

record path_formData =
  name :: string
  theme :: string
  backgroundImage :: string
  milestones :: "Milestone list"

text \<open>The component state: the five \<^verbatim>\<open>useState\<close> cells of \<^verbatim>\<open>PathEditor\<close>.\<close>

record PathEditor =
  formData :: path_formData
  selectedMilestone :: "Milestone option"
  isSubmitting :: bool
  error :: "string option"
  isDragging :: bool

text \<open>Initial state, from the optional \<^verbatim>\<open>path\<close> prop (lines 13-23).\<close>

definition init_PathEditor :: "path_formData option \<Rightarrow> PathEditor" where
  "init_PathEditor path =
     \<lparr> formData = (case path of
          None \<Rightarrow> \<lparr> name = [], theme = [], backgroundImage = [], milestones = [] \<rparr>
        | Some p \<Rightarrow> \<lparr> name = name p, theme = theme p,
                      backgroundImage = backgroundImage p, milestones = milestones p \<rparr>),
       selectedMilestone = None, isSubmitting = False, error = None, isDragging = False \<rparr>"

text \<open>What the environment supplies to a pointer-move: the event and the canvas rectangle.\<close>

record MouseEvent =
  clientX :: real
  clientY :: real

record DOMRect =
  left :: real
  top_r :: real
  width :: real
  height :: real

subsection \<open>Handlers\<close>

text \<open>\<^verbatim>\<open>handleAddMilestone\<close> (lines 34-46); \<open>now\<close> is the value of \<^verbatim>\<open>Date.now()\<close>.\<close>

definition handleAddMilestone :: "nat \<Rightarrow> PathEditor \<Rightarrow> PathEditor" where
  "handleAddMilestone now s =
     (let newMilestone = \<lparr> id_m = toString now,
                            position = \<lparr> x_p = Num 50, y_p = Num 50 \<rparr>,
                            activityId = [],
                            status = locked \<rparr>
      in s\<lparr> formData := (formData s)\<lparr> milestones := milestones (formData s) @ [newMilestone] \<rparr> \<rparr>)"

text \<open>\<^verbatim>\<open>handleMilestoneMouseDown\<close> (lines 48-51).\<close>

definition handleMilestoneMouseDown :: "Milestone \<Rightarrow> PathEditor \<Rightarrow> PathEditor" where
  "handleMilestoneMouseDown milestone s = s\<lparr> selectedMilestone := Some milestone, isDragging := True \<rparr>"

text \<open>
  \<^verbatim>\<open>handleMouseMove\<close> (lines 53-72). \<open>canvas\<close> is \<^verbatim>\<open>canvasRef.current\<close>, given by its
  bounding rectangle, or \<open>None\<close> when the ref is null. The first line of the source returns
  unless all three of dragging, selection and canvas are there.
\<close>

definition moved :: "Milestone \<Rightarrow> jsnum \<Rightarrow> jsnum \<Rightarrow> Milestone \<Rightarrow> Milestone" where
  "moved sel clampedX clampedY m =
     (if id_m m = id_m sel then m\<lparr> position := \<lparr> x_p = clampedX, y_p = clampedY \<rparr> \<rparr> else m)"

fun handleMouseMove :: "MouseEvent \<Rightarrow> DOMRect option \<Rightarrow> PathEditor \<Rightarrow> PathEditor" where
  "handleMouseMove e canvas s =
     (case (isDragging s, selectedMilestone s, canvas) of
        (True, Some sel, Some rect) \<Rightarrow>
          (let x = js_mul (js_div (clientX e - left rect) (width rect)) 100;
               y = js_mul (js_div (clientY e - top_r rect) (height rect)) 100;
               clampedX = Math_max (Num 0) (Math_min (Num 100) x);
               clampedY = Math_max (Num 0) (Math_min (Num 100) y)
           in s\<lparr> formData := (formData s)\<lparr> milestones :=
                    map (moved sel clampedX clampedY) (milestones (formData s)) \<rparr> \<rparr>)
      | _ \<Rightarrow> s)"

declare handleMouseMove.simps [simp del]

text \<open>\<^verbatim>\<open>handleMouseUp\<close> (lines 74-76), registered on the document (lines 78-81).\<close>

definition handleMouseUp :: "PathEditor \<Rightarrow> PathEditor" where
  "handleMouseUp s = s\<lparr> isDragging := False \<rparr>"

text \<open>
  The click handler of the Remove Selected button (lines 236-252). The button is rendered
  only while a milestone is selected, so with no selection there is nothing to click.
\<close>

definition removeSelected :: "PathEditor \<Rightarrow> PathEditor" where
  "removeSelected s =
     (case selectedMilestone s of
        None \<Rightarrow> s
      | Some sel \<Rightarrow>
          s\<lparr> formData := (formData s)\<lparr> milestones :=
                filter (\<lambda>m. id_m m \<noteq> id_m sel) (milestones (formData s)) \<rparr>,
             selectedMilestone := None \<rparr>)"

text \<open>
  The two text inputs (lines 139 and 153) and \<^verbatim>\<open>handleImageUpload\<close> (lines 26-32); the
  argument of the latter is the object URL of the chosen file, \<open>None\<close> when no file was chosen.
\<close>

definition changeName :: "string \<Rightarrow> PathEditor \<Rightarrow> PathEditor" where
  "changeName v s = s\<lparr> formData := (formData s)\<lparr> name := v \<rparr> \<rparr>"

definition changeTheme :: "string \<Rightarrow> PathEditor \<Rightarrow> PathEditor" where
  "changeTheme v s = s\<lparr> formData := (formData s)\<lparr> theme := v \<rparr> \<rparr>"

definition handleImageUpload :: "string option \<Rightarrow> PathEditor \<Rightarrow> PathEditor" where
  "handleImageUpload file s =
     (case file of
        None \<Rightarrow> s
      | Some imageUrl \<Rightarrow> s\<lparr> formData := (formData s)\<lparr> backgroundImage := imageUrl \<rparr> \<rparr>)"

text \<open>
  \<^verbatim>\<open>handleSubmit\<close> of \<^verbatim>\<open>PathEditor\<close> (lines 83-101) runs in two parts. The part before
  \<^verbatim>\<open>await\<close> validates and, if the draft is valid, calls \<^verbatim>\<open>onSave(formData)\<close>; the part
  after it runs when the promise settles. Each part returns the new state and the calls it
  made to the props.
\<close>

datatype path_call = OnSave_path path_formData | OnCancel

definition handleSubmit_path :: "PathEditor \<Rightarrow> PathEditor \<times> path_call list" where
  "handleSubmit_path s =
     (if trim (name (formData s)) = [] \<or> trim (theme (formData s)) = []
      then (s\<lparr> error := Some ''Please fill in all required fields'' \<rparr>, [])
      else (s\<lparr> isSubmitting := True, error := None \<rparr>, [OnSave_path (formData s)]))"

definition handleSubmit_path_settled :: "save_outcome \<Rightarrow> PathEditor \<Rightarrow> PathEditor \<times> path_call list" where
  "handleSubmit_path_settled outcome s =
     (case outcome of
        Resolved \<Rightarrow> (s\<lparr> isSubmitting := False \<rparr>, [])
      | Rejected err \<Rightarrow>
          (s\<lparr> error := Some (case err of Error_instance message \<Rightarrow> message
                                          | Other_value v \<Rightarrow> ''Failed to save path''),
              isSubmitting := False \<rparr>, []))"

text \<open>The error banner (lines 120-128) is rendered when \<^verbatim>\<open>error\<close> is neither null nor empty.\<close>

definition shown_error :: "string option \<Rightarrow> string option" where
  "shown_error err = (case err of None \<Rightarrow> None | Some message \<Rightarrow> if message = [] then None else Some message)"

subsection \<open>The editor and its environment\<close>

text \<open>
  The editor together with what surrounds it: the number of saves whose promise has not
  settled yet, and the calls made to the props so far.
\<close>

record path_sys =
  editor :: PathEditor
  saves_pending :: nat
  calls_made :: "path_call list"

definition init_path_sys :: "path_formData option \<Rightarrow> path_sys" where
  "init_path_sys path = \<lparr> editor = init_PathEditor path, saves_pending = 0, calls_made = [] \<rparr>"

text \<open>
  The events the editor reacts to. \<open>MilestoneMouseDown i\<close> is a pointer-down on the
  \<open>i\<close>-th rendered marker (lines 190-211). \<open>SubmitButtonClick\<close> is a submission through
  the submit button (a click, or Enter in a text field, let through by the browser's own
  check of the \<^verbatim>\<open>required\<close> fields); the button is rendered with
  \<^verbatim>\<open>disabled={isSubmitting}\<close> (line 267), and a disabled button submits nothing.
  \<open>FormSubmit\<close> is a submit event that reaches \<^verbatim>\<open>onSubmit\<close> of the form (line 104) by any
  other way, such as a script dispatching it. \<open>SaveSettles\<close> is the settling of an
  outstanding save; with no save outstanding there is nothing to settle.
\<close>

datatype path_event =
    ChangeName string
  | ChangeTheme string
  | ImageUpload "string option"
  | AddMilestoneClick nat
  | MilestoneMouseDown nat
  | CanvasMouseMove MouseEvent "DOMRect option"
  | DocumentMouseUp
  | RemoveSelectedClick
  | SubmitButtonClick
  | FormSubmit
  | SaveSettles save_outcome
  | CancelClick

definition on_editor :: "(PathEditor \<Rightarrow> PathEditor) \<Rightarrow> path_sys \<Rightarrow> path_sys" where
  "on_editor h sys = sys\<lparr> editor := h (editor sys) \<rparr>"

definition submit_path :: "path_sys \<Rightarrow> path_sys" where
  "submit_path sys =
     (case handleSubmit_path (editor sys) of
        (s', cs) \<Rightarrow> \<lparr> editor = s', saves_pending = saves_pending sys + length [c \<leftarrow> cs. c \<noteq> OnCancel],
                      calls_made = calls_made sys @ cs \<rparr>)"

definition settle_path :: "save_outcome \<Rightarrow> path_sys \<Rightarrow> path_sys" where
  "settle_path outcome sys =
     (if saves_pending sys = 0 then sys
      else (case handleSubmit_path_settled outcome (editor sys) of
              (s', cs) \<Rightarrow> \<lparr> editor = s', saves_pending = saves_pending sys - 1,
                            calls_made = calls_made sys @ cs \<rparr>))"

fun step_path :: "path_event \<Rightarrow> path_sys \<Rightarrow> path_sys" where
  "step_path (ChangeName v) sys = on_editor (changeName v) sys"
| "step_path (ChangeTheme v) sys = on_editor (changeTheme v) sys"
| "step_path (ImageUpload file) sys = on_editor (handleImageUpload file) sys"
| "step_path (AddMilestoneClick now) sys = on_editor (handleAddMilestone now) sys"
| "step_path (MilestoneMouseDown i) sys =
     (if i < length (milestones (formData (editor sys)))
      then on_editor (handleMilestoneMouseDown (milestones (formData (editor sys)) ! i)) sys
      else sys)"
| "step_path (CanvasMouseMove e canvas) sys = on_editor (handleMouseMove e canvas) sys"
| "step_path DocumentMouseUp sys = on_editor handleMouseUp sys"
| "step_path RemoveSelectedClick sys = on_editor removeSelected sys"
| "step_path SubmitButtonClick sys = (if isSubmitting (editor sys) then sys else submit_path sys)"
| "step_path FormSubmit sys = submit_path sys"
| "step_path (SaveSettles outcome) sys = settle_path outcome sys"
| "step_path CancelClick sys = sys\<lparr> calls_made := calls_made sys @ [OnCancel] \<rparr>"

fun run_path :: "path_event list \<Rightarrow> path_sys \<Rightarrow> path_sys" where
  "run_path [] sys = sys"
| "run_path (ev # evs) sys = run_path evs (step_path ev sys)"

section \<open>StudentManagementModal\<close>

subsection \<open>Data\<close>

text \<open>
  Modelled from the spec: the declaration of \<^verbatim>\<open>Student\<close> (\<^verbatim>\<open>types/teacher\<close>) is not
  among the sources; the fields are the ones the modal reads. What \<^verbatim>\<open>onSave\<close> receives is
  the form data extended by \<^verbatim>\<open>classId\<close>.
\<close>

record student_formData =
  name_s :: string
  email :: string
  parentEmail :: string

record student_data = student_formData +
  classId :: string

record StudentModal =
  formData_s :: student_formData
  error_s :: "string option"
  isSubmitting_s :: bool

definition init_StudentModal :: "student_formData option \<Rightarrow> StudentModal" where
  "init_StudentModal student =
     \<lparr> formData_s = (case student of
          None \<Rightarrow> \<lparr> name_s = [], email = [], parentEmail = [] \<rparr>
        | Some st \<Rightarrow> \<lparr> name_s = name_s st, email = email st, parentEmail = parentEmail st \<rparr>),
       error_s = None, isSubmitting_s = False \<rparr>"

subsection \<open>Handlers\<close>

definition changeName_s :: "string \<Rightarrow> StudentModal \<Rightarrow> StudentModal" where
  "changeName_s v s = s\<lparr> formData_s := (formData_s s)\<lparr> name_s := v \<rparr> \<rparr>"

definition changeEmail :: "string \<Rightarrow> StudentModal \<Rightarrow> StudentModal" where
  "changeEmail v s = s\<lparr> formData_s := (formData_s s)\<lparr> email := v \<rparr> \<rparr>"

definition changeParentEmail :: "string \<Rightarrow> StudentModal \<Rightarrow> StudentModal" where
  "changeParentEmail v s = s\<lparr> formData_s := (formData_s s)\<lparr> parentEmail := v \<rparr> \<rparr>"

text \<open>
  \<^verbatim>\<open>handleSubmit\<close> of the modal (lines 31-63), in the same two parts: up to the
  \<^verbatim>\<open>await\<close>, and from the settling of the promise on. A string is truthy when non-empty.
\<close>

datatype modal_call = OnSave_student student_data | OnClose

definition handleSubmit_student :: "string \<Rightarrow> StudentModal \<Rightarrow> StudentModal \<times> modal_call list" where
  "handleSubmit_student cid s =
     (if trim (name_s (formData_s s)) = []
      then (s\<lparr> error_s := Some ''Student name is required'' \<rparr>, [])
      else if email (formData_s s) \<noteq> [] \<and> \<not> includes_at (email (formData_s s))
      then (s\<lparr> error_s := Some ''Please enter a valid email address'' \<rparr>, [])
      else if parentEmail (formData_s s) \<noteq> [] \<and> \<not> includes_at (parentEmail (formData_s s))
      then (s\<lparr> error_s := Some ''Please enter a valid parent email address'' \<rparr>, [])
      else (s\<lparr> isSubmitting_s := True, error_s := None \<rparr>,
            [OnSave_student \<lparr> name_s = name_s (formData_s s), email = email (formData_s s),
                               parentEmail = parentEmail (formData_s s), classId = cid \<rparr>]))"

definition handleSubmit_student_settled ::
    "save_outcome \<Rightarrow> StudentModal \<Rightarrow> StudentModal \<times> modal_call list" where
  "handleSubmit_student_settled outcome s =
     (case outcome of
        Resolved \<Rightarrow> (s\<lparr> isSubmitting_s := False \<rparr>, [OnClose])
      | Rejected err \<Rightarrow>
          (s\<lparr> error_s := Some (case err of Error_instance message \<Rightarrow> message
                                            | Other_value v \<Rightarrow> ''Failed to save student''),
              isSubmitting_s := False \<rparr>, []))"

subsection \<open>The modal and its environment\<close>

record modal_sys =
  modal :: StudentModal
  saves_pending_s :: nat
  calls_made_s :: "modal_call list"

definition init_modal_sys :: "student_formData option \<Rightarrow> modal_sys" where
  "init_modal_sys student = \<lparr> modal = init_StudentModal student, saves_pending_s = 0, calls_made_s = [] \<rparr>"

text \<open>
  The events of the modal, read as those of the editor; the submit button is rendered with
  \<^verbatim>\<open>disabled={isSubmitting}\<close> (line 186), and \<open>CloseClick\<close> stands for the three elements
  wired to \<^verbatim>\<open>onClose\<close>.
\<close>

datatype modal_event =
    ChangeName_s string
  | ChangeEmail string
  | ChangeParentEmail string
  | SubmitButtonClick_s
  | FormSubmit_s
  | SaveSettles_s save_outcome
  | CloseClick

definition on_modal :: "(StudentModal \<Rightarrow> StudentModal) \<Rightarrow> modal_sys \<Rightarrow> modal_sys" where
  "on_modal h sys = sys\<lparr> modal := h (modal sys) \<rparr>"

definition submit_student :: "string \<Rightarrow> modal_sys \<Rightarrow> modal_sys" where
  "submit_student cid sys =
     (case handleSubmit_student cid (modal sys) of
        (s', cs) \<Rightarrow> \<lparr> modal = s', saves_pending_s = saves_pending_s sys + length [c \<leftarrow> cs. c \<noteq> OnClose],
                      calls_made_s = calls_made_s sys @ cs \<rparr>)"

definition settle_student :: "save_outcome \<Rightarrow> modal_sys \<Rightarrow> modal_sys" where
  "settle_student outcome sys =
     (if saves_pending_s sys = 0 then sys
      else (case handleSubmit_student_settled outcome (modal sys) of
              (s', cs) \<Rightarrow> \<lparr> modal = s', saves_pending_s = saves_pending_s sys - 1,
                            calls_made_s = calls_made_s sys @ cs \<rparr>))"

fun step_student :: "string \<Rightarrow> modal_event \<Rightarrow> modal_sys \<Rightarrow> modal_sys" where
  "step_student cid (ChangeName_s v) sys = on_modal (changeName_s v) sys"
| "step_student cid (ChangeEmail v) sys = on_modal (changeEmail v) sys"
| "step_student cid (ChangeParentEmail v) sys = on_modal (changeParentEmail v) sys"
| "step_student cid SubmitButtonClick_s sys =
     (if isSubmitting_s (modal sys) then sys else submit_student cid sys)"
| "step_student cid FormSubmit_s sys = submit_student cid sys"
| "step_student cid (SaveSettles_s outcome) sys = settle_student outcome sys"
| "step_student cid CloseClick sys = sys\<lparr> calls_made_s := calls_made_s sys @ [OnClose] \<rparr>"

fun run_student :: "string \<Rightarrow> modal_event list \<Rightarrow> modal_sys \<Rightarrow> modal_sys" where
  "run_student cid [] sys = sys"
| "run_student cid (ev # evs) sys = run_student cid evs (step_student cid ev sys)"

section \<open>The spec's formula, drag sequences and the scenarios' states\<close>

text \<open>The spec's formula, over the reals: the fraction of the canvas as a percentage, clamped.\<close>

definition clamp_0_100 :: "real \<Rightarrow> real" where
  "clamp_0_100 v = max 0 (min 100 v)"

definition spec_position :: "MouseEvent \<Rightarrow> DOMRect \<Rightarrow> Position" where
  "spec_position e rect =
     \<lparr> x_p = Num (clamp_0_100 ((clientX e - left rect) / width rect * 100)),
       y_p = Num (clamp_0_100 ((clientY e - top_r rect) / height rect * 100)) \<rparr>"

text \<open>The two clamped coordinates that \<open>handleMouseMove\<close> computes, named for the proofs.\<close>

definition clampedX :: "MouseEvent \<Rightarrow> DOMRect \<Rightarrow> jsnum" where
  "clampedX e rect =
     Math_max (Num 0) (Math_min (Num 100) (js_mul (js_div (clientX e - left rect) (width rect)) 100))"

definition clampedY :: "MouseEvent \<Rightarrow> DOMRect \<Rightarrow> jsnum" where
  "clampedY e rect =
     Math_max (Num 0) (Math_min (Num 100) (js_mul (js_div (clientY e - top_r rect) (height rect)) 100))"

text \<open>A drag sequence: pointer-moves over the canvas, each with the rectangle current at that time.\<close>

fun drag :: "(MouseEvent \<times> DOMRect) list \<Rightarrow> PathEditor \<Rightarrow> PathEditor" where
  "drag [] s = s"
| "drag (ev # evs) s = drag evs (handleMouseMove (fst ev) (Some (snd ev)) s)"

text \<open>A state used in the concrete scenarios: one milestone \<open>M\<close>, selected and being dragged.\<close>

definition milestone_M :: Milestone where
  "milestone_M = \<lparr> id_m = ''m1'', position = \<lparr> x_p = Num 50, y_p = Num 50 \<rparr>,
                    activityId = ''a1'', status = unlocked \<rparr>"

definition dragging_M :: PathEditor where
  "dragging_M =
     handleMilestoneMouseDown milestone_M
       (init_PathEditor (Some \<lparr> name = ''Path'', theme = ''Sea'', backgroundImage = [],
                                milestones = [milestone_M] \<rparr>))"

text \<open>The spec's two student scenarios: a draft with a bad parent email, and a valid draft.\<close>

definition student_Ana_bad :: StudentModal where
  "student_Ana_bad = init_StudentModal (Some \<lparr> name_s = ''Ana'', email = [], parentEmail = ''bad'' \<rparr>)"

definition modal_Ana :: modal_sys where
  "modal_Ana = init_modal_sys (Some \<lparr> name_s = ''Ana'', email = ''a@b.com'', parentEmail = ''p@b.com'' \<rparr>)"

text \<open>Typing a name and a theme into an empty editor.\<close>

definition path_P_T :: "path_event list" where
  "path_P_T = [ChangeName ''P'', ChangeTheme ''T'']"

text \<open>The events that leave the selection alone: all but a pointer-down on a marker and a
  click on Remove Selected.\<close>

definition keeps_selection :: "path_event \<Rightarrow> bool" where
  "keeps_selection ev =
     (case ev of MilestoneMouseDown i \<Rightarrow> False | RemoveSelectedClick \<Rightarrow> False | _ \<Rightarrow> True)"

text \<open>Two clicks on Add Milestone for which \<^verbatim>\<open>Date.now()\<close> returns the same millisecond.\<close>

definition two_adds_same_instant :: "path_event list" where
  "two_adds_same_instant = [AddMilestoneClick 1700000000000, AddMilestoneClick 1700000000000]"

text \<open>A second milestone, and an editor holding \<open>M\<close> and \<open>N\<close> with \<open>M\<close> selected and dragging.\<close>

definition milestone_N :: Milestone where
  "milestone_N = \<lparr> id_m = ''m2'', position = \<lparr> x_p = Num 20, y_p = Num 80 \<rparr>,
                    activityId = ''a2'', status = completed \<rparr>"

definition dragging_M_of_two :: PathEditor where
  "dragging_M_of_two =
     handleMilestoneMouseDown milestone_M
       (init_PathEditor (Some \<lparr> name = ''Path'', theme = ''Sea'', backgroundImage = [],
                                milestones = [milestone_M, milestone_N] \<rparr>))"

section \<open>Properties\<close>

subsection \<open>Pointer-move\<close>

lemma clamp_nonzero:
  "b \<noteq> 0 \<Longrightarrow>
   Math_max (Num 0) (Math_min (Num 100) (js_mul (js_div a b) 100)) = Num (clamp_0_100 (a / b * 100))"
  by (simp add: clamp_0_100_def js_div.simps)

lemma clamp_0_100_range: "0 \<le> clamp_0_100 v \<and> clamp_0_100 v \<le> 100"
  by (simp add: clamp_0_100_def)

lemma handleMouseMove_active:
  assumes "isDragging s" and "selectedMilestone s = Some sel"
  shows "handleMouseMove e (Some rect) s =
           s\<lparr> formData := (formData s)\<lparr> milestones :=
                 map (moved sel (clampedX e rect) (clampedY e rect)) (milestones (formData s)) \<rparr> \<rparr>"
  using assms by (simp add: handleMouseMove.simps clampedX_def clampedY_def)

lemma handleMouseMove_idle:
  "\<not> isDragging s \<or> selectedMilestone s = None \<or> canvas = None \<Longrightarrow> handleMouseMove e canvas s = s"
  by (auto simp: handleMouseMove.simps split: bool.splits option.splits)

lemma handleMouseMove_keeps:
  "isDragging (handleMouseMove e canvas s) = isDragging s
   \<and> selectedMilestone (handleMouseMove e canvas s) = selectedMilestone s
   \<and> isSubmitting (handleMouseMove e canvas s) = isSubmitting s
   \<and> error (handleMouseMove e canvas s) = error s"
  by (simp add: handleMouseMove.simps Let_def split: bool.splits option.splits)

lemma clamped_spec:
  assumes "width rect \<noteq> 0" and "height rect \<noteq> 0"
  shows "\<lparr> x_p = clampedX e rect, y_p = clampedY e rect \<rparr> = spec_position e rect"
  using assms by (simp add: clampedX_def clampedY_def spec_position_def clamp_nonzero)

lemma moved_id: "id_m (moved sel cx cy m) = id_m m"
  by (simp add: moved_def)

lemma moved_twice: "moved sel cx' cy' (moved sel cx cy m) = moved sel cx' cy' m"
  by (simp add: moved_def)

lemma drag_keeps:
  "isDragging (drag evs s) = isDragging s \<and> selectedMilestone (drag evs s) = selectedMilestone s"
proof (induction evs arbitrary: s)
  case Nil
  show ?case by simp
next
  case (Cons ev evs)
  show ?case
    using Cons.IH [of "handleMouseMove (fst ev) (Some (snd ev)) s"] handleMouseMove_keeps
    by simp
qed

lemma drag_last:
  assumes "isDragging s" and "selectedMilestone s = Some sel" and "evs \<noteq> []"
  shows "milestones (formData (drag evs s)) =
           map (moved sel (clampedX (fst (last evs)) (snd (last evs)))
                          (clampedY (fst (last evs)) (snd (last evs))))
               (milestones (formData s))"
  using assms
proof (induction evs arbitrary: s)
  case Nil
  then show ?case by simp
next
  case (Cons ev evs)
  let ?s' = "handleMouseMove (fst ev) (Some (snd ev)) s"
  have step: "milestones (formData ?s') =
      map (moved sel (clampedX (fst ev) (snd ev)) (clampedY (fst ev) (snd ev))) (milestones (formData s))"
    using Cons.prems(1,2) by (simp add: handleMouseMove_active)
  show ?case
  proof (cases "evs = []")
    case True
    then show ?thesis using step by simp
  next
    case False
    have d: "isDragging ?s'" and sl: "selectedMilestone ?s' = Some sel"
      using Cons.prems(1,2) handleMouseMove_keeps [of "fst ev" "Some (snd ev)" s] by simp_all
    have "milestones (formData (drag evs ?s')) =
            map (moved sel (clampedX (fst (last evs)) (snd (last evs)))
                           (clampedY (fst (last evs)) (snd (last evs))))
                (milestones (formData ?s'))"
      using Cons.IH [OF d sl False] .
    then show ?thesis
      using False step by (simp add: moved_twice comp_def)
  qed
qed

lemma map_moved_spec:
  "map (moved sel (x_p p) (y_p p)) ms = map (\<lambda>m. if id_m m = id_m sel then m\<lparr> position := p \<rparr> else m) ms"
  by (simp add: moved_def)

text \<open>
  The clamped coordinate is within \<open>[0,100]\<close> except for the quotient \<open>0/0\<close>: a box of zero
  width with the pointer on its left edge, or of zero height with the pointer on its top
  edge. On a box of zero width with the pointer elsewhere the result is 0 or 100.
\<close>

lemma clamped_range_iff:
  "within_0_100 (clampedX e rect) = (\<not> (width rect = 0 \<and> clientX e = left rect))
   \<and> within_0_100 (clampedY e rect) = (\<not> (height rect = 0 \<and> clientY e = top_r rect))"
  by (auto simp: clampedX_def clampedY_def js_div.simps)

text \<open>
  While a milestone is selected and a drag is active, a non-empty sequence of pointer-moves
  over a canvas whose bounding box has non-zero width and height leaves every milestone
  carrying the selected identifier at
  \<open>x = clamp ((pointerX - canvasLeft) / canvasWidth * 100)\<close>, \<open>y\<close> analogous, of the last
  move, and these coordinates are within \<open>[0,100]\<close> wherever the pointer is.
\<close>

lemma drag_position_clamped:
  assumes "isDragging s" and "selectedMilestone s = Some sel" and "evs \<noteq> []"
    and "width (snd (last evs)) \<noteq> 0" and "height (snd (last evs)) \<noteq> 0"
  shows "milestones (formData (drag evs s)) =
           map (\<lambda>m. if id_m m = id_m sel
                     then m\<lparr> position := spec_position (fst (last evs)) (snd (last evs)) \<rparr>
                     else m) (milestones (formData s))
         \<and> (\<forall>m \<in> set (milestones (formData (drag evs s))).
              id_m m = id_m sel \<longrightarrow>
                within_0_100 (x_p (position m)) \<and> within_0_100 (y_p (position m)))"
proof -
  let ?e = "fst (last evs)" and ?r = "snd (last evs)"
  have sp: "\<lparr> x_p = clampedX ?e ?r, y_p = clampedY ?e ?r \<rparr> = spec_position ?e ?r"
    using assms(4,5) by (rule clamped_spec)
  have "milestones (formData (drag evs s)) =
          map (moved sel (clampedX ?e ?r) (clampedY ?e ?r)) (milestones (formData s))"
    using assms(1,2,3) by (rule drag_last)
  also have "\<dots> = map (moved sel (x_p (spec_position ?e ?r)) (y_p (spec_position ?e ?r)))
                      (milestones (formData s))"
    using sp by (metis Position.select_convs(1,2))
  finally have eq: "milestones (formData (drag evs s)) =
      map (\<lambda>m. if id_m m = id_m sel then m\<lparr> position := spec_position ?e ?r \<rparr> else m)
          (milestones (formData s))"
    by (simp only: map_moved_spec)
  have rng: "within_0_100 (x_p (spec_position ?e ?r)) \<and> within_0_100 (y_p (spec_position ?e ?r))"
    by (simp add: spec_position_def clamp_0_100_range)
  show ?thesis
    using eq rng by auto
qed

text \<open>
  The spec's scenario: a 400 by 300 canvas at the origin, pointer at (440, 150), milestone
  \<open>M\<close> selected and dragging: \<open>x = 110\<close> is clamped to 100, \<open>y = 50\<close>.
\<close>

lemma scenario_400_300:
  "milestones (formData (drag [(\<lparr> clientX = 440, clientY = 150 \<rparr>,
                                 \<lparr> left = 0, top_r = 0, width = 400, height = 300 \<rparr>)] dragging_M))
     = [milestone_M\<lparr> position := \<lparr> x_p = Num 100, y_p = Num 50 \<rparr> \<rparr>]"
  using drag_position_clamped [of dragging_M milestone_M
      "[(\<lparr> clientX = 440, clientY = 150 \<rparr>, \<lparr> left = 0, top_r = 0, width = 400, height = 300 \<rparr>)]"]
  by (simp add: dragging_M_def handleMilestoneMouseDown_def init_PathEditor_def
        spec_position_def clamp_0_100_def)

text \<open>
  C1, at the failing input: milestone \<open>M\<close> is selected and dragging, the canvas has a
  bounding box of zero width and height, and the pointer is at its corner. Both quotients
  are \<open>0/0\<close>; NaN passes through \<^verbatim>\<open>Math.min\<close> and \<^verbatim>\<open>Math.max\<close>, so the position of
  \<open>M\<close> becomes \<open>(NaN, NaN)\<close> and is not within \<open>[0,100]\<close>, against the claim and against the
  comment of the source on this very clamp.
\<close>

theorem C1_zero_canvas_NaN:
  "milestones (formData (handleMouseMove \<lparr> clientX = 0, clientY = 0 \<rparr>
        (Some \<lparr> left = 0, top_r = 0, width = 0, height = 0 \<rparr>) dragging_M))
     = [milestone_M\<lparr> position := \<lparr> x_p = NaN, y_p = NaN \<rparr> \<rparr>]
   \<and> \<not> within_0_100 (x_p (position (milestone_M\<lparr> position := \<lparr> x_p = NaN, y_p = NaN \<rparr> \<rparr>)))"
  by (simp add: dragging_M_def handleMilestoneMouseDown_def init_PathEditor_def moved_def
        handleMouseMove.simps js_div.simps milestone_M_def)

subsection \<open>Student form: validation and submission\<close>

lemma trim_Ana: "trim ''Ana'' = ''Ana''"
  by (simp add: trim_def isWhiteSpace_def)

text \<open>
  C2: validation of a student draft runs in the fixed order name, email, parent email and
  stops at the first failure: the name error wins whatever the emails are, the email error
  wins whatever the parent email is, and an empty email is skipped. In each case only the
  error message changes (the draft and the in-progress flag are kept) and no call to
  \<^verbatim>\<open>onSave\<close> is made.
\<close>

theorem C2_validation_order:
  "(trim (name_s (formData_s s)) = [] \<longrightarrow>
      handleSubmit_student cid s = (s\<lparr> error_s := Some ''Student name is required'' \<rparr>, []))
   \<and> (trim (name_s (formData_s s)) \<noteq> [] \<and> email (formData_s s) \<noteq> []
        \<and> \<not> includes_at (email (formData_s s)) \<longrightarrow>
      handleSubmit_student cid s = (s\<lparr> error_s := Some ''Please enter a valid email address'' \<rparr>, []))
   \<and> (trim (name_s (formData_s s)) \<noteq> []
        \<and> (email (formData_s s) = [] \<or> includes_at (email (formData_s s)))
        \<and> parentEmail (formData_s s) \<noteq> [] \<and> \<not> includes_at (parentEmail (formData_s s)) \<longrightarrow>
      handleSubmit_student cid s =
        (s\<lparr> error_s := Some ''Please enter a valid parent email address'' \<rparr>, []))"
  by (auto simp: handleSubmit_student_def)

text \<open>The spec's scenario: name "Ana", empty email, parent email "bad".\<close>

theorem C2_scenario_Ana_bad_parent_email:
  "handleSubmit_student ''C1'' student_Ana_bad =
     (student_Ana_bad\<lparr> error_s := Some ''Please enter a valid parent email address'' \<rparr>, [])
   \<and> formData_s (fst (handleSubmit_student ''C1'' student_Ana_bad))
       = \<lparr> name_s = ''Ana'', email = [], parentEmail = ''bad'' \<rparr>"
  using C2_validation_order [of student_Ana_bad "''C1''"]
  by (simp add: student_Ana_bad_def init_StudentModal_def trim_Ana includes_at_def)

lemma valid_submit:
  assumes "trim (name_s (formData_s s)) \<noteq> []"
    and "email (formData_s s) = [] \<or> includes_at (email (formData_s s))"
    and "parentEmail (formData_s s) = [] \<or> includes_at (parentEmail (formData_s s))"
  shows "handleSubmit_student cid s =
           (s\<lparr> isSubmitting_s := True, error_s := None \<rparr>,
            [OnSave_student \<lparr> name_s = name_s (formData_s s), email = email (formData_s s),
                               parentEmail = parentEmail (formData_s s), classId = cid \<rparr>])"
  using assms by (auto simp: handleSubmit_student_def)

text \<open>
  C9: a student draft that passes validation is handed to \<^verbatim>\<open>onSave\<close> as exactly its three
  fields plus the injected \<^verbatim>\<open>classId\<close>; when the save resolves, \<^verbatim>\<open>onClose\<close> is called.
  Through the submit button: the calls made are the save, then the close.
\<close>

theorem C9_valid_draft_saved_then_closed:
  assumes "trim (name_s (formData_s (modal sys))) \<noteq> []"
    and "email (formData_s (modal sys)) = [] \<or> includes_at (email (formData_s (modal sys)))"
    and "parentEmail (formData_s (modal sys)) = [] \<or> includes_at (parentEmail (formData_s (modal sys)))"
    and "\<not> isSubmitting_s (modal sys)"
  shows "snd (handleSubmit_student cid (modal sys)) =
           [OnSave_student \<lparr> name_s = name_s (formData_s (modal sys)),
                              email = email (formData_s (modal sys)),
                              parentEmail = parentEmail (formData_s (modal sys)), classId = cid \<rparr>]
         \<and> snd (handleSubmit_student_settled Resolved s') = [OnClose]
         \<and> calls_made_s (run_student cid [SubmitButtonClick_s, SaveSettles_s Resolved] sys) =
             calls_made_s sys @
               [OnSave_student \<lparr> name_s = name_s (formData_s (modal sys)),
                                  email = email (formData_s (modal sys)),
                                  parentEmail = parentEmail (formData_s (modal sys)), classId = cid \<rparr>,
                OnClose]"
  using assms(4) valid_submit [OF assms(1,2,3), of cid]
  by (simp add: submit_student_def settle_student_def handleSubmit_student_settled_def)

text \<open>The spec's scenario: "Ana", "a@b.com", "p@b.com" with class "C1".\<close>

theorem C9_scenario_Ana:
  "calls_made_s (run_student ''C1'' [SubmitButtonClick_s, SaveSettles_s Resolved] modal_Ana) =
     [OnSave_student \<lparr> name_s = ''Ana'', email = ''a@b.com'', parentEmail = ''p@b.com'', classId = ''C1'' \<rparr>,
      OnClose]"
  using C9_valid_draft_saved_then_closed [of modal_Ana "''C1''"]
  by (simp add: modal_Ana_def init_modal_sys_def init_StudentModal_def trim_Ana includes_at_def)

subsection \<open>Rejected saves\<close>

lemma trim_P: "trim ''P'' = ''P''" and trim_T: "trim ''T'' = ''T''"
  by (simp_all add: trim_def isWhiteSpace_def)

text \<open>
  C4 (amended): when the awaited save rejects, both components set the error to the message
  of the thrown value if it is an \<^verbatim>\<open>Error\<close> instance, and to their fixed fallback string
  for any other thrown value, whether or not it carries a message; the draft is the one
  before the rejection, the flag is cleared, and no callback is invoked (the modal is not
  asked to close). A non-empty message is the text of the error banner.
\<close>

theorem C4_rejection_surfaced:
  "handleSubmit_student_settled (Rejected (Error_instance msg)) s =
     (s\<lparr> error_s := Some msg, isSubmitting_s := False \<rparr>, [])
   \<and> handleSubmit_student_settled (Rejected (Other_value v)) s =
     (s\<lparr> error_s := Some ''Failed to save student'', isSubmitting_s := False \<rparr>, [])
   \<and> handleSubmit_path_settled (Rejected (Error_instance msg)) p =
     (p\<lparr> error := Some msg, isSubmitting := False \<rparr>, [])
   \<and> handleSubmit_path_settled (Rejected (Other_value v)) p =
     (p\<lparr> error := Some ''Failed to save path'', isSubmitting := False \<rparr>, [])
   \<and> formData_s (fst (handleSubmit_student_settled (Rejected err) s)) = formData_s s
   \<and> formData (fst (handleSubmit_path_settled (Rejected err) p)) = formData p
   \<and> shown_error (error_s (fst (handleSubmit_student_settled (Rejected (Error_instance (c # cs))) s)))
       = Some (c # cs)
   \<and> shown_error (error (fst (handleSubmit_path_settled (Rejected (Error_instance (c # cs))) p)))
       = Some (c # cs)
   \<and> (0 < saves_pending_s msys \<longrightarrow>
        calls_made_s (step_student cid (SaveSettles_s (Rejected err)) msys) = calls_made_s msys
        \<and> formData_s (modal (step_student cid (SaveSettles_s (Rejected err)) msys))
            = formData_s (modal msys))
   \<and> (0 < saves_pending psys \<longrightarrow>
        calls_made (step_path (SaveSettles (Rejected err)) psys) = calls_made psys
        \<and> formData (editor (step_path (SaveSettles (Rejected err)) psys)) = formData (editor psys))"
  by (simp add: handleSubmit_student_settled_def handleSubmit_path_settled_def shown_error_def
        settle_student_def settle_path_def)

text \<open>The spec's scenario, for both components: the save rejects with "network down".\<close>

theorem C4_scenario_network_down:
  "shown_error (error_s (modal (run_student ''C1''
       [SubmitButtonClick_s, SaveSettles_s (Rejected (Error_instance ''network down''))] modal_Ana)))
     = Some ''network down''
   \<and> formData_s (modal (run_student ''C1''
       [SubmitButtonClick_s, SaveSettles_s (Rejected (Error_instance ''network down''))] modal_Ana))
     = \<lparr> name_s = ''Ana'', email = ''a@b.com'', parentEmail = ''p@b.com'' \<rparr>
   \<and> OnClose \<notin> set (calls_made_s (run_student ''C1''
       [SubmitButtonClick_s, SaveSettles_s (Rejected (Error_instance ''network down''))] modal_Ana))
   \<and> shown_error (error (editor (run_path
       (path_P_T @ [SubmitButtonClick, SaveSettles (Rejected (Error_instance ''network down''))])
       (init_path_sys None))))
     = Some ''network down''
   \<and> formData (editor (run_path
       (path_P_T @ [SubmitButtonClick, SaveSettles (Rejected (Error_instance ''network down''))])
       (init_path_sys None)))
     = \<lparr> name = ''P'', theme = ''T'', backgroundImage = [], milestones = [] \<rparr>"
  using C4_rejection_surfaced [of "''network down''" "modal (step_student ''C1'' SubmitButtonClick_s modal_Ana)"
      None "editor (run_path (path_P_T @ [SubmitButtonClick]) (init_path_sys None))"
      "Error_instance ''network down''" "CHR ''n''" "''etwork down''"
      "step_student ''C1'' SubmitButtonClick_s modal_Ana" "''C1''"
      "run_path (path_P_T @ [SubmitButtonClick]) (init_path_sys None)"]
  by (simp add: modal_Ana_def init_modal_sys_def init_StudentModal_def trim_Ana includes_at_def
        submit_student_def handleSubmit_student_def settle_student_def
        path_P_T_def init_path_sys_def init_PathEditor_def on_editor_def changeName_def changeTheme_def
        submit_path_def handleSubmit_path_def settle_path_def trim_P trim_T
        handleSubmit_student_settled_def handleSubmit_path_settled_def shown_error_def)

text \<open>
  A rejection with the plain object \<^verbatim>\<open>{message: "network down"}\<close>, which is not an
  \<^verbatim>\<open>Error\<close> instance: its message is there, and the components show their fallback.
\<close>

theorem C4_message_of_non_Error_not_shown:
  "shown_error (error_s (modal (run_student ''C1''
       [SubmitButtonClick_s, SaveSettles_s (Rejected (Other_value (Some ''network down'')))] modal_Ana)))
     = Some ''Failed to save student''
   \<and> shown_error (error (editor (run_path
       (path_P_T @ [SubmitButtonClick, SaveSettles (Rejected (Other_value (Some ''network down'')))])
       (init_path_sys None))))
     = Some ''Failed to save path''"
  by (simp add: modal_Ana_def init_modal_sys_def init_StudentModal_def trim_Ana includes_at_def
        submit_student_def handleSubmit_student_def settle_student_def
        path_P_T_def init_path_sys_def init_PathEditor_def on_editor_def changeName_def changeTheme_def
        submit_path_def handleSubmit_path_def settle_path_def trim_P trim_T
        handleSubmit_student_settled_def handleSubmit_path_settled_def shown_error_def)

subsection \<open>Milestones: move, remove, add, release\<close>

lemma handleMouseMove_cases:
  "handleMouseMove e canvas s = s
   \<or> (\<exists>sel cx cy. selectedMilestone s = Some sel
        \<and> handleMouseMove e canvas s =
            s\<lparr> formData := (formData s)\<lparr> milestones := map (moved sel cx cy) (milestones (formData s)) \<rparr> \<rparr>)"
  by (auto simp: handleMouseMove.simps Let_def split: bool.splits option.splits)

lemma moved_frame:
  "id_m (moved sel cx cy m) = id_m m \<and> activityId (moved sel cx cy m) = activityId m
   \<and> status (moved sel cx cy m) = status m"
  by (simp add: moved_def)

lemma moved_other: "id_m m \<noteq> id_m sel \<Longrightarrow> moved sel cx cy m = m"
  by (simp add: moved_def)

lemma handleMouseMove_frame:
  "(\<not> isDragging s \<or> selectedMilestone s = None \<or> canvas = None \<longrightarrow> handleMouseMove e canvas s = s)
   \<and> name (formData (handleMouseMove e canvas s)) = name (formData s)
   \<and> theme (formData (handleMouseMove e canvas s)) = theme (formData s)
   \<and> backgroundImage (formData (handleMouseMove e canvas s)) = backgroundImage (formData s)
   \<and> selectedMilestone (handleMouseMove e canvas s) = selectedMilestone s
   \<and> isSubmitting (handleMouseMove e canvas s) = isSubmitting s
   \<and> error (handleMouseMove e canvas s) = error s
   \<and> isDragging (handleMouseMove e canvas s) = isDragging s
   \<and> length (milestones (formData (handleMouseMove e canvas s))) = length (milestones (formData s))
   \<and> (\<forall>i < length (milestones (formData s)).
        id_m (milestones (formData (handleMouseMove e canvas s)) ! i) = id_m (milestones (formData s) ! i)
        \<and> activityId (milestones (formData (handleMouseMove e canvas s)) ! i)
            = activityId (milestones (formData s) ! i)
        \<and> status (milestones (formData (handleMouseMove e canvas s)) ! i)
            = status (milestones (formData s) ! i)
        \<and> (Some (id_m (milestones (formData s) ! i)) \<noteq> map_option id_m (selectedMilestone s) \<longrightarrow>
             milestones (formData (handleMouseMove e canvas s)) ! i = milestones (formData s) ! i))"
proof -
  have idle: "\<not> isDragging s \<or> selectedMilestone s = None \<or> canvas = None \<longrightarrow> handleMouseMove e canvas s = s"
    using handleMouseMove_idle by blast
  from handleMouseMove_cases [of e canvas s]
  show ?thesis
  proof
    assume "handleMouseMove e canvas s = s"
    then show ?thesis by simp
  next
    assume "\<exists>sel cx cy. selectedMilestone s = Some sel
        \<and> handleMouseMove e canvas s =
            s\<lparr> formData := (formData s)\<lparr> milestones := map (moved sel cx cy) (milestones (formData s)) \<rparr> \<rparr>"
    then obtain sel cx cy where sel: "selectedMilestone s = Some sel"
      and eq: "handleMouseMove e canvas s =
            s\<lparr> formData := (formData s)\<lparr> milestones := map (moved sel cx cy) (milestones (formData s)) \<rparr> \<rparr>"
      by blast
    show ?thesis
      using idle sel by (simp add: eq moved_frame moved_other)
  qed
qed


lemma distinct_other_id:
  assumes "distinct (map f ms)" and "k < length ms" and "i < length ms" and "i \<noteq> k"
  shows "f (ms ! i) \<noteq> f (ms ! k)"
  using assms by (metis length_map nth_eq_iff_index_eq nth_map)

text \<open>
  A pointer-move is a no-op unless a drag is active, a milestone is selected
  and the canvas is there. Otherwise it changes nothing but positions: name, theme,
  background, selection, flags and error are kept, the collection keeps its length and
  order, every milestone keeps its identifier, activity reference and status, and every
  milestone whose identifier differs from the selected milestone's is unchanged altogether; when the
  identifiers are pairwise distinct, that is every milestone but the selected one.
\<close>

lemma move_changes_only_selected_position:
  "(\<not> isDragging s \<or> selectedMilestone s = None \<or> canvas = None \<longrightarrow> handleMouseMove e canvas s = s)
   \<and> name (formData (handleMouseMove e canvas s)) = name (formData s)
   \<and> theme (formData (handleMouseMove e canvas s)) = theme (formData s)
   \<and> backgroundImage (formData (handleMouseMove e canvas s)) = backgroundImage (formData s)
   \<and> selectedMilestone (handleMouseMove e canvas s) = selectedMilestone s
   \<and> isSubmitting (handleMouseMove e canvas s) = isSubmitting s
   \<and> error (handleMouseMove e canvas s) = error s
   \<and> isDragging (handleMouseMove e canvas s) = isDragging s
   \<and> length (milestones (formData (handleMouseMove e canvas s))) = length (milestones (formData s))
   \<and> (\<forall>i < length (milestones (formData s)).
        id_m (milestones (formData (handleMouseMove e canvas s)) ! i) = id_m (milestones (formData s) ! i)
        \<and> activityId (milestones (formData (handleMouseMove e canvas s)) ! i)
            = activityId (milestones (formData s) ! i)
        \<and> status (milestones (formData (handleMouseMove e canvas s)) ! i)
            = status (milestones (formData s) ! i)
        \<and> (Some (id_m (milestones (formData s) ! i)) \<noteq> map_option id_m (selectedMilestone s) \<longrightarrow>
             milestones (formData (handleMouseMove e canvas s)) ! i = milestones (formData s) ! i))
   \<and> (\<forall>k < length (milestones (formData s)).
        distinct (map id_m (milestones (formData s)))
        \<and> map_option id_m (selectedMilestone s) = Some (id_m (milestones (formData s) ! k)) \<longrightarrow>
          (\<forall>i < length (milestones (formData s)). i \<noteq> k \<longrightarrow>
             milestones (formData (handleMouseMove e canvas s)) ! i = milestones (formData s) ! i))"
proof -
  have other: "Some (id_m (milestones (formData s) ! i)) \<noteq> map_option id_m (selectedMilestone s)"
    if "k < length (milestones (formData s))" and "distinct (map id_m (milestones (formData s)))"
      and "map_option id_m (selectedMilestone s) = Some (id_m (milestones (formData s) ! k))"
      and "i < length (milestones (formData s))" and "i \<noteq> k" for i k
    using that distinct_other_id [of id_m "milestones (formData s)" k i] by auto
  show ?thesis
    using handleMouseMove_frame [of s canvas e] other by blast
qed

text \<open>
  Two milestones \<open>M\<close> and \<open>N\<close> with different identifiers, \<open>M\<close> selected: a move changes
  the position of \<open>M\<close> only; without canvas, or after the release, it changes nothing.
\<close>

lemma scenario_two_milestones:
  "milestones (formData (handleMouseMove \<lparr> clientX = 100, clientY = 150 \<rparr>
        (Some \<lparr> left = 0, top_r = 0, width = 400, height = 300 \<rparr>) dragging_M_of_two))
     = [milestone_M\<lparr> position := \<lparr> x_p = Num 25, y_p = Num 50 \<rparr> \<rparr>, milestone_N]
   \<and> handleMouseMove \<lparr> clientX = 100, clientY = 150 \<rparr> None dragging_M_of_two = dragging_M_of_two
   \<and> handleMouseMove \<lparr> clientX = 100, clientY = 150 \<rparr>
        (Some \<lparr> left = 0, top_r = 0, width = 400, height = 300 \<rparr>) (handleMouseUp dragging_M_of_two)
       = handleMouseUp dragging_M_of_two"
  using move_changes_only_selected_position [of dragging_M_of_two None "\<lparr> clientX = 100, clientY = 150 \<rparr>"]
    move_changes_only_selected_position [of "handleMouseUp dragging_M_of_two"
       "Some \<lparr> left = 0, top_r = 0, width = 400, height = 300 \<rparr>" "\<lparr> clientX = 100, clientY = 150 \<rparr>"]
  by (simp add: dragging_M_of_two_def handleMilestoneMouseDown_def init_PathEditor_def handleMouseUp_def
        handleMouseMove.simps js_div.simps moved_def milestone_M_def milestone_N_def)

text \<open>
  C5, at the failing input: two clicks on Add Milestone within the same millisecond give two
  milestones with the same identifier; a pointer-down on the first marker followed by a
  pointer-move changes the position of the second marker too, against the claim that every
  other milestone is unchanged.
\<close>

theorem C5_same_id_moves_too:
  "map position (milestones (formData (editor
      (run_path (two_adds_same_instant @ [MilestoneMouseDown 0]) (init_path_sys None)))))
     = [\<lparr> x_p = Num 50, y_p = Num 50 \<rparr>, \<lparr> x_p = Num 50, y_p = Num 50 \<rparr>]
   \<and> map position (milestones (formData (editor
      (run_path (two_adds_same_instant @ [MilestoneMouseDown 0,
          CanvasMouseMove \<lparr> clientX = 100, clientY = 150 \<rparr>
            (Some \<lparr> left = 0, top_r = 0, width = 400, height = 300 \<rparr>)]) (init_path_sys None)))))
     = [\<lparr> x_p = Num 25, y_p = Num 50 \<rparr>, \<lparr> x_p = Num 25, y_p = Num 50 \<rparr>]"
  by (simp add: two_adds_same_instant_def init_path_sys_def init_PathEditor_def on_editor_def
        handleAddMilestone_def handleMilestoneMouseDown_def handleMouseMove.simps js_div.simps moved_def
        Let_def)


lemma filter_unique_id:
  assumes "distinct (map f ms)" and "k < length ms" and "f (ms ! k) = v"
  shows "filter (\<lambda>m. f m \<noteq> v) ms = take k ms @ drop (Suc k) ms"
  using assms
proof (induction ms arbitrary: k)
  case Nil
  then show ?case by simp
next
  case (Cons a ms)
  show ?case
  proof (cases k)
    case 0
    with Cons.prems have "f a = v" and notin: "v \<notin> f ` set ms" by auto
    from notin have "\<forall>m \<in> set ms. f m \<noteq> v" by blast
    then have "filter (\<lambda>m. f m \<noteq> v) ms = ms"
      by (simp add: filter_id_conv)
    with \<open>f a = v\<close> 0 show ?thesis by simp
  next
    case (Suc j)
    with Cons.prems have j: "j < length ms" and fj: "f (ms ! j) = v" and d: "distinct (map f ms)"
      by auto
    from Cons.prems j fj have "f a \<noteq> v"
      by (metis distinct.simps(2) image_eqI list.simps(9) nth_mem set_map)
    with Suc Cons.IH [OF d j fj] show ?thesis by simp
  qed
qed

text \<open>
  With nothing selected Remove Selected changes nothing. With a selection it
  clears the selection and deletes by identifier match, leaving name, theme and background
  alone; when the identifiers of the collection are pairwise distinct and the \<open>k\<close>-th
  milestone carries the selected identifier, the result is the collection without its
  \<open>k\<close>-th element (all others as they were, in order), of size \<open>N - 1\<close>.
\<close>

lemma remove_selected_by_id:
  "(selectedMilestone s = None \<longrightarrow> removeSelected s = s)
   \<and> (selectedMilestone s = Some sel \<longrightarrow>
        selectedMilestone (removeSelected s) = None
        \<and> milestones (formData (removeSelected s))
            = filter (\<lambda>m. id_m m \<noteq> id_m sel) (milestones (formData s))
        \<and> name (formData (removeSelected s)) = name (formData s)
        \<and> theme (formData (removeSelected s)) = theme (formData s)
        \<and> backgroundImage (formData (removeSelected s)) = backgroundImage (formData s)
        \<and> (\<forall>k < length (milestones (formData s)).
             distinct (map id_m (milestones (formData s)))
             \<and> id_m (milestones (formData s) ! k) = id_m sel \<longrightarrow>
               milestones (formData (removeSelected s))
                 = take k (milestones (formData s)) @ drop (Suc k) (milestones (formData s))
               \<and> length (milestones (formData (removeSelected s)))
                   = length (milestones (formData s)) - 1))"
proof -
  have "\<And>k. k < length (milestones (formData s)) \<Longrightarrow> distinct (map id_m (milestones (formData s)))
          \<Longrightarrow> id_m (milestones (formData s) ! k) = id_m sel
          \<Longrightarrow> filter (\<lambda>m. id_m m \<noteq> id_m sel) (milestones (formData s))
               = take k (milestones (formData s)) @ drop (Suc k) (milestones (formData s))"
    by (rule filter_unique_id)
  moreover have "\<And>k. k < length (milestones (formData s)) \<Longrightarrow>
      length (take k (milestones (formData s)) @ drop (Suc k) (milestones (formData s)))
        = length (milestones (formData s)) - 1"
    by simp
  ultimately show ?thesis
    by (simp add: removeSelected_def)
qed

text \<open>
  \<open>M\<close> and \<open>N\<close> with \<open>M\<close> selected: removal leaves exactly \<open>N\<close> and no selection, and a
  second removal changes nothing.
\<close>

lemma scenario_remove_M:
  "milestones (formData (removeSelected dragging_M_of_two)) = [milestone_N]
   \<and> length (milestones (formData dragging_M_of_two)) = 2
   \<and> selectedMilestone (removeSelected dragging_M_of_two) = None
   \<and> removeSelected (removeSelected dragging_M_of_two) = removeSelected dragging_M_of_two"
  using remove_selected_by_id [of dragging_M_of_two milestone_M]
    remove_selected_by_id [of "removeSelected dragging_M_of_two" milestone_M]
  by (simp add: dragging_M_of_two_def handleMilestoneMouseDown_def init_PathEditor_def
        removeSelected_def milestone_M_def milestone_N_def)

text \<open>
  The size after Remove Selected: the milestones carrying the selected identifier are the
  ones that go, so the size is \<open>N - 1\<close> exactly when that identifier occurs once.
\<close>

lemma remove_selected_length:
  "selectedMilestone s = Some sel \<Longrightarrow>
   length (milestones (formData (removeSelected s)))
     + length [m \<leftarrow> milestones (formData s). id_m m = id_m sel]
     = length (milestones (formData s))"
  using sum_length_filter_compl [of "\<lambda>m. id_m m = id_m sel" "milestones (formData s)"]
  by (simp add: removeSelected_def)

text \<open>
  C6, at the failing input: two clicks on Add Milestone within the same millisecond give a
  collection of size 2 whose milestones share one identifier; with the first one selected,
  Remove Selected leaves a collection of size 0, against the claim's size \<open>N - 1\<close>.
\<close>

theorem C6_same_id_removes_both:
  "length (milestones (formData (editor
      (run_path (two_adds_same_instant @ [MilestoneMouseDown 0, DocumentMouseUp]) (init_path_sys None)))))
     = 2
   \<and> length (milestones (formData (editor
      (run_path (two_adds_same_instant @ [MilestoneMouseDown 0, DocumentMouseUp, RemoveSelectedClick])
         (init_path_sys None)))))
     = 0"
  by (simp add: two_adds_same_instant_def init_path_sys_def init_PathEditor_def on_editor_def
        handleAddMilestone_def handleMilestoneMouseDown_def handleMouseUp_def removeSelected_def Let_def)

text \<open>
  C7, at the failing input: two clicks on Add Milestone within the same millisecond, on an
  empty editor, yield two milestones with the same identifier.
\<close>

theorem C7_same_instant_same_id:
  "map id_m (milestones (formData (editor (run_path two_adds_same_instant (init_path_sys None)))))
     = [''1700000000000'', ''1700000000000'']
   \<and> \<not> distinct (map id_m (milestones (formData (editor
          (run_path two_adds_same_instant (init_path_sys None))))))"
  by (simp add: two_adds_same_instant_def init_path_sys_def init_PathEditor_def on_editor_def
        handleAddMilestone_def Let_def toString.simps digit_def)

text \<open>
  What Add Milestone does apart from choosing the identifier, and when the identifier it
  chooses keeps the identifiers distinct.
\<close>

lemma add_milestone_fresh_id:
  "distinct (map id_m (milestones (formData (handleAddMilestone now s)))) =
     (distinct (map id_m (milestones (formData s)))
      \<and> toString now \<notin> id_m ` set (milestones (formData s)))"
  by (auto simp: handleAddMilestone_def)

lemma add_milestone_appends:
  "handleAddMilestone now s =
     s\<lparr> formData := (formData s)\<lparr> milestones := milestones (formData s) @
          [\<lparr> id_m = toString now, position = \<lparr> x_p = Num 50, y_p = Num 50 \<rparr>,
             activityId = [], status = locked \<rparr>] \<rparr> \<rparr>
   \<and> selectedMilestone (handleAddMilestone now s) = selectedMilestone s"
  by (simp add: handleAddMilestone_def)


lemma run_path_append: "run_path (xs @ ys) sys = run_path ys (run_path xs sys)"
  by (induction xs arbitrary: sys) simp_all

lemma submit_path_selection:
  "selectedMilestone (editor (submit_path sys)) = selectedMilestone (editor sys)
   \<and> formData (editor (submit_path sys)) = formData (editor sys)"
  by (simp add: submit_path_def handleSubmit_path_def)

lemma settle_path_selection:
  "selectedMilestone (editor (settle_path outcome sys)) = selectedMilestone (editor sys)
   \<and> formData (editor (settle_path outcome sys)) = formData (editor sys)"
  by (simp add: settle_path_def handleSubmit_path_settled_def split: save_outcome.splits)

lemma step_keeps_selection:
  assumes "keeps_selection ev"
  shows "selectedMilestone (editor (step_path ev sys)) = selectedMilestone (editor sys)"
proof (cases ev)
  case (CanvasMouseMove e canvas)
  then show ?thesis using handleMouseMove_keeps [of e canvas "editor sys"] by (simp add: on_editor_def)
next
  case (ImageUpload url)
  then show ?thesis by (simp add: on_editor_def handleImageUpload_def split: option.splits)
next
  case (MilestoneMouseDown i)
  with assms show ?thesis by (simp add: keeps_selection_def)
next
  case RemoveSelectedClick
  with assms show ?thesis by (simp add: keeps_selection_def)
qed (simp_all add: on_editor_def changeName_def changeTheme_def handleAddMilestone_def
       handleMouseUp_def submit_path_selection settle_path_selection)

lemma run_keeps_selection:
  "\<forall>ev \<in> set evs. keeps_selection ev \<Longrightarrow>
   selectedMilestone (editor (run_path evs sys)) = selectedMilestone (editor sys)"
  by (induction evs arbitrary: sys) (simp_all add: step_keeps_selection)

text \<open>
  C10: a pointer-up changes nothing but the dragging flag. The selection survives every
  sequence of events without a pointer-down on a marker and without a click on Remove
  Selected; so after a pointer-down on the \<open>i\<close>-th marker, any such events and the
  release, that milestone is still the selected one, and Remove Selected then removes
  every milestone with its identifier.
\<close>

theorem C10_mouse_up_keeps_selection:
  "step_path DocumentMouseUp sys = sys\<lparr> editor := (editor sys)\<lparr> isDragging := False \<rparr> \<rparr>
   \<and> ((\<forall>ev \<in> set evs. keeps_selection ev) \<longrightarrow>
        selectedMilestone (editor (run_path evs sys)) = selectedMilestone (editor sys))
   \<and> (i < length (milestones (formData (editor sys))) \<and> (\<forall>ev \<in> set evs. keeps_selection ev) \<longrightarrow>
        selectedMilestone (editor (run_path (MilestoneMouseDown i # evs @ [DocumentMouseUp]) sys))
          = Some (milestones (formData (editor sys)) ! i)
        \<and> (\<forall>m \<in> set (milestones (formData (editor
              (run_path (MilestoneMouseDown i # evs @ [DocumentMouseUp, RemoveSelectedClick]) sys)))).
             id_m m \<noteq> id_m (milestones (formData (editor sys)) ! i)))"
proof -
  let ?m = "milestones (formData (editor sys)) ! i"
  let ?down = "on_editor (handleMilestoneMouseDown ?m) sys"
  have up: "step_path DocumentMouseUp sys = sys\<lparr> editor := (editor sys)\<lparr> isDragging := False \<rparr> \<rparr>"
    by (simp add: on_editor_def handleMouseUp_def)
  have keep: "(\<forall>ev \<in> set evs. keeps_selection ev) \<longrightarrow>
      selectedMilestone (editor (run_path evs sys)) = selectedMilestone (editor sys)"
    using run_keeps_selection by blast
  have drag: "selectedMilestone (editor (run_path (evs @ [DocumentMouseUp]) ?down)) = Some ?m"
    if "\<forall>ev \<in> set evs. keeps_selection ev"
  proof -
    have "\<forall>ev \<in> set (evs @ [DocumentMouseUp]). keeps_selection ev"
      using that by (simp add: keeps_selection_def)
    then have "selectedMilestone (editor (run_path (evs @ [DocumentMouseUp]) ?down))
        = selectedMilestone (editor ?down)"
      by (rule run_keeps_selection)
    then show ?thesis by (simp add: on_editor_def handleMilestoneMouseDown_def)
  qed
  have rem: "\<forall>m \<in> set (milestones (formData (editor
              (run_path ((evs @ [DocumentMouseUp]) @ [RemoveSelectedClick]) ?down)))).
             id_m m \<noteq> id_m ?m"
    if "\<forall>ev \<in> set evs. keeps_selection ev"
    using drag [OF that]
    by (simp only: run_path_append) (simp add: on_editor_def removeSelected_def)
  show ?thesis
    using up keep drag rem by simp
qed

text \<open>
  Press on \<open>M\<close>, move, release: \<open>M\<close> is still selected; Remove Selected then leaves \<open>N\<close>.
\<close>

theorem C10_scenario_drag_release_remove:
  "selectedMilestone (editor (run_path
      [MilestoneMouseDown 0,
       CanvasMouseMove \<lparr> clientX = 100, clientY = 150 \<rparr>
         (Some \<lparr> left = 0, top_r = 0, width = 400, height = 300 \<rparr>),
       DocumentMouseUp]
      (init_path_sys (Some \<lparr> name = ''Path'', theme = ''Sea'', backgroundImage = [],
                              milestones = [milestone_M, milestone_N] \<rparr>)))) = Some milestone_M
   \<and> milestones (formData (editor (run_path
      [MilestoneMouseDown 0,
       CanvasMouseMove \<lparr> clientX = 100, clientY = 150 \<rparr>
         (Some \<lparr> left = 0, top_r = 0, width = 400, height = 300 \<rparr>),
       DocumentMouseUp, RemoveSelectedClick]
      (init_path_sys (Some \<lparr> name = ''Path'', theme = ''Sea'', backgroundImage = [],
                              milestones = [milestone_M, milestone_N] \<rparr>))))) = [milestone_N]"
  using C10_mouse_up_keeps_selection [of
      "init_path_sys (Some \<lparr> name = ''Path'', theme = ''Sea'', backgroundImage = [],
                              milestones = [milestone_M, milestone_N] \<rparr>)"
      "[CanvasMouseMove \<lparr> clientX = 100, clientY = 150 \<rparr>
         (Some \<lparr> left = 0, top_r = 0, width = 400, height = 300 \<rparr>)]" 0]
  by (simp add: init_path_sys_def init_PathEditor_def on_editor_def handleMilestoneMouseDown_def
        handleMouseMove.simps js_div.simps moved_def handleMouseUp_def removeSelected_def
        milestone_M_def milestone_N_def keeps_selection_def)

subsection \<open>The in-progress flag\<close>

text \<open>
  Every event other than a submit event that bypasses the button keeps the number of
  outstanding saves equal to 1 when the flag is set and to 0 when it is not.
\<close>

lemma step_path_flag:
  assumes "ev \<noteq> FormSubmit"
    and "saves_pending sys = (if isSubmitting (editor sys) then 1 else 0)"
  shows "saves_pending (step_path ev sys) = (if isSubmitting (editor (step_path ev sys)) then 1 else 0)"
proof (cases ev)
  case (CanvasMouseMove e canvas)
  then show ?thesis
    using assms(2) handleMouseMove_keeps [of e canvas "editor sys"] by (simp add: on_editor_def)
next
  case (ImageUpload url)
  then show ?thesis using assms(2) by (simp add: on_editor_def handleImageUpload_def split: option.splits)
next
  case RemoveSelectedClick
  then show ?thesis using assms(2) by (simp add: on_editor_def removeSelected_def split: option.splits)
next
  case SubmitButtonClick
  then show ?thesis using assms(2) by (simp add: submit_path_def handleSubmit_path_def)
next
  case FormSubmit
  with assms(1) show ?thesis by simp
next
  case (SaveSettles outcome)
  then show ?thesis
    using assms(2)
    by (simp add: settle_path_def handleSubmit_path_settled_def split: save_outcome.splits if_splits)
qed (use assms(2) in \<open>simp_all add: on_editor_def changeName_def changeTheme_def handleAddMilestone_def
       handleMilestoneMouseDown_def handleMouseUp_def\<close>)

lemma run_path_flag:
  assumes "FormSubmit \<notin> set evs"
    and "saves_pending sys = (if isSubmitting (editor sys) then 1 else 0)"
  shows "saves_pending (run_path evs sys) = (if isSubmitting (editor (run_path evs sys)) then 1 else 0)"
  using assms
proof (induction evs arbitrary: sys)
  case Nil
  then show ?case by simp
next
  case (Cons ev evs)
  from Cons.prems have ev: "ev \<noteq> FormSubmit" and rest: "FormSubmit \<notin> set evs" by auto
  have "saves_pending (step_path ev sys) = (if isSubmitting (editor (step_path ev sys)) then 1 else 0)"
    using ev Cons.prems(2) by (rule step_path_flag)
  from Cons.IH [OF rest this] show ?case by simp
qed

lemma step_student_flag:
  assumes "ev \<noteq> FormSubmit_s"
    and "saves_pending_s sys = (if isSubmitting_s (modal sys) then 1 else 0)"
  shows "saves_pending_s (step_student cid ev sys) =
           (if isSubmitting_s (modal (step_student cid ev sys)) then 1 else 0)"
proof (cases ev)
  case SubmitButtonClick_s
  then show ?thesis using assms(2) by (simp add: submit_student_def handleSubmit_student_def)
next
  case FormSubmit_s
  with assms(1) show ?thesis by simp
next
  case (SaveSettles_s outcome)
  then show ?thesis
    using assms(2)
    by (simp add: settle_student_def handleSubmit_student_settled_def split: save_outcome.splits if_splits)
qed (use assms(2) in \<open>simp_all add: on_modal_def changeName_s_def changeEmail_def changeParentEmail_def\<close>)

lemma run_student_flag:
  assumes "FormSubmit_s \<notin> set evs"
    and "saves_pending_s sys = (if isSubmitting_s (modal sys) then 1 else 0)"
  shows "saves_pending_s (run_student cid evs sys) =
           (if isSubmitting_s (modal (run_student cid evs sys)) then 1 else 0)"
  using assms
proof (induction evs arbitrary: sys)
  case Nil
  then show ?case by simp
next
  case (Cons ev evs)
  from Cons.prems have ev: "ev \<noteq> FormSubmit_s" and rest: "FormSubmit_s \<notin> set evs" by auto
  have "saves_pending_s (step_student cid ev sys) =
      (if isSubmitting_s (modal (step_student cid ev sys)) then 1 else 0)"
    using ev Cons.prems(2) by (rule step_student_flag)
  from Cons.IH [OF rest this] show ?case by simp
qed

text \<open>
  C3 (amended): as long as submissions come through the submit button, which is disabled
  while the flag is set, at most one save is outstanding at any time, and a save is
  outstanding exactly while the in-progress flag is set; a click on the submit button while
  the flag is set changes nothing and starts no save (nothing is queued). This holds for
  the path editor and for the student modal, from any initial props.
\<close>

theorem C3_no_overlapping_saves:
  assumes "FormSubmit \<notin> set evs" and "FormSubmit_s \<notin> set evs_s"
  shows "saves_pending (run_path evs (init_path_sys path)) \<le> 1
       \<and> (0 < saves_pending (run_path evs (init_path_sys path)))
           = isSubmitting (editor (run_path evs (init_path_sys path)))
       \<and> (isSubmitting (editor psys) \<longrightarrow> step_path SubmitButtonClick psys = psys)
       \<and> saves_pending_s (run_student cid evs_s (init_modal_sys student)) \<le> 1
       \<and> (0 < saves_pending_s (run_student cid evs_s (init_modal_sys student)))
           = isSubmitting_s (modal (run_student cid evs_s (init_modal_sys student)))
       \<and> (isSubmitting_s (modal msys) \<longrightarrow> step_student cid SubmitButtonClick_s msys = msys)"
proof -
  have p: "saves_pending (run_path evs (init_path_sys path)) =
      (if isSubmitting (editor (run_path evs (init_path_sys path))) then 1 else 0)"
    using assms(1) by (rule run_path_flag) (simp add: init_path_sys_def init_PathEditor_def)
  have m: "saves_pending_s (run_student cid evs_s (init_modal_sys student)) =
      (if isSubmitting_s (modal (run_student cid evs_s (init_modal_sys student))) then 1 else 0)"
    using assms(2) by (rule run_student_flag) (simp add: init_modal_sys_def init_StudentModal_def)
  show ?thesis
    using p m by simp
qed

text \<open>
  A double click on the submit button of a valid draft: one save is outstanding and
  \<^verbatim>\<open>onSave\<close> was called once, in both components.
\<close>

theorem C3_scenario_double_click:
  "saves_pending (run_path (path_P_T @ [SubmitButtonClick, SubmitButtonClick]) (init_path_sys None)) = 1
   \<and> calls_made (run_path (path_P_T @ [SubmitButtonClick, SubmitButtonClick]) (init_path_sys None))
       = [OnSave_path \<lparr> name = ''P'', theme = ''T'', backgroundImage = [], milestones = [] \<rparr>]
   \<and> saves_pending_s (run_student ''C1'' [SubmitButtonClick_s, SubmitButtonClick_s] modal_Ana) = 1
   \<and> calls_made_s (run_student ''C1'' [SubmitButtonClick_s, SubmitButtonClick_s] modal_Ana)
       = [OnSave_student \<lparr> name_s = ''Ana'', email = ''a@b.com'', parentEmail = ''p@b.com'',
                            classId = ''C1'' \<rparr>]"
  using C3_no_overlapping_saves [of "path_P_T @ [SubmitButtonClick, SubmitButtonClick]"
      "[SubmitButtonClick_s, SubmitButtonClick_s]" None
      "run_path (path_P_T @ [SubmitButtonClick]) (init_path_sys None)" "''C1''"
      "Some \<lparr> name_s = ''Ana'', email = ''a@b.com'', parentEmail = ''p@b.com'' \<rparr>"
      "run_student ''C1'' [SubmitButtonClick_s] modal_Ana"]
  by (simp add: path_P_T_def init_path_sys_def init_PathEditor_def on_editor_def changeName_def
        changeTheme_def submit_path_def handleSubmit_path_def trim_P trim_T
        modal_Ana_def init_modal_sys_def init_StudentModal_def submit_student_def
        handleSubmit_student_def trim_Ana includes_at_def)

text \<open>
  \<^verbatim>\<open>handleSubmit\<close> itself does not test the flag. A submit event that reaches the form
  while a save is outstanding starts a second save; when the first of the two settles, the
  flag is cleared although a save is still outstanding.
\<close>

theorem C3_submit_event_while_saving:
  "saves_pending (run_path (path_P_T @ [SubmitButtonClick, FormSubmit]) (init_path_sys None)) = 2
   \<and> calls_made (run_path (path_P_T @ [SubmitButtonClick, FormSubmit]) (init_path_sys None))
       = [OnSave_path \<lparr> name = ''P'', theme = ''T'', backgroundImage = [], milestones = [] \<rparr>,
          OnSave_path \<lparr> name = ''P'', theme = ''T'', backgroundImage = [], milestones = [] \<rparr>]
   \<and> saves_pending (run_path (path_P_T @ [SubmitButtonClick, FormSubmit, SaveSettles Resolved])
        (init_path_sys None)) = 1
   \<and> \<not> isSubmitting (editor (run_path (path_P_T @ [SubmitButtonClick, FormSubmit, SaveSettles Resolved])
        (init_path_sys None)))
   \<and> saves_pending_s (run_student ''C1'' [SubmitButtonClick_s, FormSubmit_s] modal_Ana) = 2"
  by (simp add: path_P_T_def init_path_sys_def init_PathEditor_def on_editor_def changeName_def
        changeTheme_def submit_path_def handleSubmit_path_def trim_P trim_T settle_path_def
        handleSubmit_path_settled_def
        modal_Ana_def init_modal_sys_def init_StudentModal_def submit_student_def
        handleSubmit_student_def trim_Ana includes_at_def)

subsection \<open>Path form: validation and submission\<close>

text \<open>
  C8 (amended): if the trimmed name or the trimmed theme is empty, the submission sets the
  single combined error and makes no call; otherwise it sets the in-progress flag, clears
  the error and calls \<^verbatim>\<open>onSave\<close> with the draft. A rejection sets the error (message or
  fallback) and clears the flag with the draft intact; a resolution only clears the flag:
  the editor calls nothing on success. As long as submissions come through the submit
  button, the flag is set for the duration of the save: from any props and after any such
  events, at most one save is outstanding, and one is outstanding exactly when the flag is
  set.
\<close>

theorem C8_path_submission:
  "(trim (name (formData s)) = [] \<or> trim (theme (formData s)) = [] \<longrightarrow>
      handleSubmit_path s = (s\<lparr> error := Some ''Please fill in all required fields'' \<rparr>, []))
   \<and> (trim (name (formData s)) \<noteq> [] \<and> trim (theme (formData s)) \<noteq> [] \<longrightarrow>
      handleSubmit_path s = (s\<lparr> isSubmitting := True, error := None \<rparr>, [OnSave_path (formData s)]))
   \<and> handleSubmit_path_settled (Rejected (Error_instance msg)) s' =
       (s'\<lparr> error := Some msg, isSubmitting := False \<rparr>, [])
   \<and> handleSubmit_path_settled (Rejected (Other_value v)) s' =
       (s'\<lparr> error := Some ''Failed to save path'', isSubmitting := False \<rparr>, [])
   \<and> handleSubmit_path_settled Resolved s' = (s'\<lparr> isSubmitting := False \<rparr>, [])
   \<and> (FormSubmit \<notin> set evs \<longrightarrow>
        saves_pending (run_path evs (init_path_sys path)) \<le> 1
        \<and> (0 < saves_pending (run_path evs (init_path_sys path)))
            = isSubmitting (editor (run_path evs (init_path_sys path))))"
proof -
  have flag: "saves_pending (run_path evs (init_path_sys path)) =
      (if isSubmitting (editor (run_path evs (init_path_sys path))) then 1 else 0)"
    if "FormSubmit \<notin> set evs"
    using that by (rule run_path_flag) (simp add: init_path_sys_def init_PathEditor_def)
  have handlers:
    "(trim (name (formData s)) = [] \<or> trim (theme (formData s)) = [] \<longrightarrow>
        handleSubmit_path s = (s\<lparr> error := Some ''Please fill in all required fields'' \<rparr>, []))
     \<and> (trim (name (formData s)) \<noteq> [] \<and> trim (theme (formData s)) \<noteq> [] \<longrightarrow>
        handleSubmit_path s = (s\<lparr> isSubmitting := True, error := None \<rparr>, [OnSave_path (formData s)]))
     \<and> handleSubmit_path_settled (Rejected (Error_instance msg)) s' =
         (s'\<lparr> error := Some msg, isSubmitting := False \<rparr>, [])
     \<and> handleSubmit_path_settled (Rejected (Other_value v)) s' =
         (s'\<lparr> error := Some ''Failed to save path'', isSubmitting := False \<rparr>, [])
     \<and> handleSubmit_path_settled Resolved s' = (s'\<lparr> isSubmitting := False \<rparr>, [])"
    by (simp add: handleSubmit_path_def handleSubmit_path_settled_def)
  show ?thesis
    using handlers flag by simp
qed

text \<open>
  A valid draft ("P", "T") and a draft whose theme is a single space; and the valid draft
  submitted through the button: one save outstanding with the flag set, none with the flag
  cleared once it has settled.
\<close>

theorem C8_scenario_valid_and_blank:
  "handleSubmit_path (editor (run_path path_P_T (init_path_sys None))) =
     (editor (run_path path_P_T (init_path_sys None))\<lparr> isSubmitting := True, error := None \<rparr>,
      [OnSave_path \<lparr> name = ''P'', theme = ''T'', backgroundImage = [], milestones = [] \<rparr>])
   \<and> handleSubmit_path (editor (run_path [ChangeName ''P'', ChangeTheme '' ''] (init_path_sys None))) =
     (editor (run_path [ChangeName ''P'', ChangeTheme '' ''] (init_path_sys None))
        \<lparr> error := Some ''Please fill in all required fields'' \<rparr>, [])
   \<and> saves_pending (run_path (path_P_T @ [SubmitButtonClick]) (init_path_sys None)) = 1
   \<and> isSubmitting (editor (run_path (path_P_T @ [SubmitButtonClick]) (init_path_sys None)))
   \<and> saves_pending (run_path (path_P_T @ [SubmitButtonClick, SaveSettles (Rejected (Other_value None))])
        (init_path_sys None)) = 0
   \<and> \<not> isSubmitting (editor (run_path
        (path_P_T @ [SubmitButtonClick, SaveSettles (Rejected (Other_value None))]) (init_path_sys None)))"
  using C8_path_submission [where s = "editor (run_path path_P_T (init_path_sys None))"
      and evs = "path_P_T @ [SubmitButtonClick]" and path = None]
    C8_path_submission [where s = "editor (run_path [ChangeName ''P'', ChangeTheme '' ''] (init_path_sys None))"
      and evs = "path_P_T @ [SubmitButtonClick, SaveSettles (Rejected (Other_value None))]" and path = None]
  by (simp add: path_P_T_def init_path_sys_def init_PathEditor_def on_editor_def changeName_def
        changeTheme_def trim_P trim_T trim_def isWhiteSpace_def submit_path_def handleSubmit_path_def
        settle_path_def handleSubmit_path_settled_def)

text \<open>
  After a valid submission whose save resolves, the only call the editor has made is
  \<^verbatim>\<open>onSave\<close>: the caller is not notified to close. And the flag is not set for the
  duration of every save: after two submit events that reach the form directly, the
  settling of the first save clears the flag while the second is still outstanding.
\<close>

theorem C8_no_close_call_and_flag_off_while_saving:
  "calls_made (run_path (path_P_T @ [SubmitButtonClick, SaveSettles Resolved]) (init_path_sys None))
     = [OnSave_path \<lparr> name = ''P'', theme = ''T'', backgroundImage = [], milestones = [] \<rparr>]
   \<and> OnCancel \<notin> set (calls_made
        (run_path (path_P_T @ [SubmitButtonClick, SaveSettles Resolved]) (init_path_sys None)))
   \<and> saves_pending (run_path (path_P_T @ [FormSubmit, FormSubmit, SaveSettles Resolved])
        (init_path_sys None)) = 1
   \<and> \<not> isSubmitting (editor (run_path (path_P_T @ [FormSubmit, FormSubmit, SaveSettles Resolved])
        (init_path_sys None)))"
  by (simp add: path_P_T_def init_path_sys_def init_PathEditor_def on_editor_def changeName_def
        changeTheme_def submit_path_def handleSubmit_path_def settle_path_def trim_P trim_T
        handleSubmit_path_settled_def)

end
